theory Spec2Isabelle
  imports Main "HOL-Library.AList"
begin

section \<open>The cache cleaner \<^verbatim>\<open>scripts/clear_cache.py\<close>\<close>

text \<open>
  The script reads a token from the environment and a pull-request identifier from the
  command line, lists the caches of one repository, and deletes those whose \<^verbatim>\<open>ref\<close> is
  the merge reference of the pull request. Its effects are the requests it sends and the
  lines it prints; both are kept in an explicit state. The network is an input of the
  model: a function that gives the outcome of a request from the requests sent before it.
\<close>

subsection \<open>Values decoded from JSON, and exceptions\<close>

text \<open>
  What \<^verbatim>\<open>json.load\<close> returns: \<^verbatim>\<open>None\<close>, a bool, an int, a float, a str, a list or a
  dict (an association list, keys distinct, in the order of the document). The script
  never computes with a float: it can only format it, so a float is carried as the text
  Python prints for it.
\<close>

datatype json =
    JNull
  | JBool bool
  | JInt int
  | JFloat string
  | JStr string
  | JArr "json list"
  | JObj "(string \<times> json) list"

text \<open>
  The exceptions that can reach \<^verbatim>\<open>main\<close>. \<open>HTTPError\<close> is a subclass of
  \<open>URLError\<close> in Python; here \<open>URLError\<close> stands for a \<open>URLError\<close> that is not an
  \<open>HTTPError\<close>, and \<open>OtherError\<close> for any exception of \<^verbatim>\<open>urlopen\<close> that is not a
  \<open>URLError\<close> at all.
\<close>

datatype exn =
    KeyError string
  | IndexError
  | TypeError
  | JSONDecodeError
  | HTTPError int
  | URLError
  | OtherError

text \<open>\<^verbatim>\<open>v[k]\<close> for a string key: only a dict can be subscripted by a string.\<close>

fun py_getitem :: "json \<Rightarrow> string \<Rightarrow> exn + json" where
  "py_getitem (JObj kvs) k =
     (case map_of kvs k of None \<Rightarrow> Inl (KeyError k) | Some v \<Rightarrow> Inr v)"
| "py_getitem v k = Inl TypeError"

text \<open>
  \<^verbatim>\<open>for x in v\<close>: the elements of a list, the keys of a dict, the characters of a str;
  anything else is not iterable.
\<close>

fun py_iter :: "json \<Rightarrow> exn + json list" where
  "py_iter (JArr xs) = Inr xs"
| "py_iter (JObj kvs) = Inr (map (\<lambda>kv. JStr (fst kv)) kvs)"
| "py_iter (JStr s) = Inr (map (\<lambda>c. JStr [c]) s)"
| "py_iter v = Inl TypeError"

subsection \<open>Formatting values\<close>

text \<open>\<^verbatim>\<open>str\<close> of an int: its decimal digits, with a minus sign when negative.\<close>

fun str_nat :: "nat \<Rightarrow> string" where
  "str_nat n =
     (if n < 10 then [''0123456789'' ! n]
      else str_nat (n div 10) @ [''0123456789'' ! (n mod 10)])"

declare str_nat.simps [simp del]

definition str_int :: "int \<Rightarrow> string" where
  "str_int i = (if i < 0 then CHR ''-'' # str_nat (nat (- i)) else str_nat (nat i))"

text \<open>
  \<^verbatim>\<open>repr\<close> of a str: single quotes, or double quotes when the string has a single quote
  and no double quote; the quote and the backslash are escaped, tab, newline and carriage
  return are written \<^verbatim>\<open>\t\<close>, \<^verbatim>\<open>\n\<close>, \<^verbatim>\<open>\r\<close>, and any other character that is not
  printable is written \<^verbatim>\<open>\xhh\<close>.
\<close>

definition hex2 :: "nat \<Rightarrow> string" where
  "hex2 n = [''0123456789abcdef'' ! (n div 16), ''0123456789abcdef'' ! (n mod 16)]"

definition printable :: "char \<Rightarrow> bool" where
  "printable c =
     (let n = (of_char c :: nat) in (32 \<le> n \<and> n < 127) \<or> (161 \<le> n \<and> n \<noteq> 173))"

definition repr_char :: "char \<Rightarrow> char \<Rightarrow> string" where
  "repr_char q c =
     (if c = q \<or> c = CHR 0x5C then [CHR 0x5C, c]
      else if c = CHR 0x09 then [CHR 0x5C, CHR ''t'']
      else if c = CHR 0x0A then [CHR 0x5C, CHR ''n'']
      else if c = CHR 0x0D then [CHR 0x5C, CHR ''r'']
      else if printable c then [c]
      else [CHR 0x5C, CHR ''x''] @ hex2 (of_char c))"

definition repr_str :: "string \<Rightarrow> string" where
  "repr_str s =
     (let q = (if CHR 0x27 \<in> set s \<and> CHR 0x22 \<notin> set s then CHR 0x22 else CHR 0x27)
      in [q] @ concat (map (repr_char q) s) @ [q])"

fun join :: "string \<Rightarrow> string list \<Rightarrow> string" where
  "join sep [] = []"
| "join sep [x] = x"
| "join sep (x # y # ys) = x @ sep @ join sep (y # ys)"

fun py_repr :: "json \<Rightarrow> string" where
  "py_repr JNull = ''None''"
| "py_repr (JBool b) = (if b then ''True'' else ''False'')"
| "py_repr (JInt i) = str_int i"
| "py_repr (JFloat t) = t"
| "py_repr (JStr s) = repr_str s"
| "py_repr (JArr xs) = ''['' @ join '', '' (map py_repr xs) @ '']''"
| "py_repr (JObj kvs) =
     ''{'' @ join '', '' (map (\<lambda>kv. repr_str (fst kv) @ '': '' @ py_repr (snd kv)) kvs) @ ''}''"

text \<open>
  \<^verbatim>\<open>"{}".format(v)\<close> is \<^verbatim>\<open>str(v)\<close>: a str as it is, any other value as its
  \<^verbatim>\<open>repr\<close>.
\<close>

fun py_str :: "json \<Rightarrow> string" where
  "py_str (JStr s) = s"
| "py_str v = py_repr v"

subsection \<open>Requests\<close>

datatype http_method = GET | DELETE

text \<open>
  A request object: the address after the constructor has cleaned it, the fragment the
  constructor split off it, the method and the headers.
\<close>

record request =
  url :: string
  fragment :: "string option"
  req_method :: http_method
  headers :: "(string \<times> string) list"

text \<open>
  \<^verbatim>\<open>str.strip()\<close> removes white space at both ends, \<^verbatim>\<open>str.rstrip()\<close> at the
  end; these are the characters below 256 that Python counts as white space.
\<close>

definition py_isspace :: "char \<Rightarrow> bool" where
  "py_isspace c \<longleftrightarrow>
     c \<in> set [CHR 0x09, CHR 0x0A, CHR 0x0B, CHR 0x0C, CHR 0x0D, CHR 0x1C, CHR 0x1D,
               CHR 0x1E, CHR 0x1F, CHR 0x20, CHR 0x85, CHR 0xA0]"

definition rstrip :: "string \<Rightarrow> string" where
  "rstrip u = rev (dropWhile py_isspace (rev u))"

definition strip :: "string \<Rightarrow> string" where
  "strip u = rstrip (dropWhile py_isspace u)"

text \<open>
  \<^verbatim>\<open>urllib.parse.unwrap\<close>: strip, take the string out of \<^verbatim>\<open><...>\<close>, drop a
  leading \<^verbatim>\<open>URL:\<close>. \<^verbatim>\<open>_splittag\<close> cuts at the last \<^verbatim>\<open>#\<close>, if there is one.
\<close>

definition unwrap :: "string \<Rightarrow> string" where
  "unwrap u =
     (let u1 = strip u;
          u2 = (if take 1 u1 = ''<'' \<and> take 1 (rev u1) = ''>'' then strip (butlast (tl u1))
                else u1)
      in if take 4 u2 = ''URL:'' then strip (drop 4 u2) else u2)"

definition splittag :: "string \<Rightarrow> string \<times> string option" where
  "splittag u =
     (if CHR ''#'' \<in> set u
      then (rev (tl (dropWhile (\<lambda>c. c \<noteq> CHR ''#'') (rev u))),
            Some (rev (takeWhile (\<lambda>c. c \<noteq> CHR ''#'') (rev u))))
      else (u, None))"

text \<open>
  \<^verbatim>\<open>Request(url, method=m)\<close> stores the unwrapped address without its fragment, and
  the fragment beside it; it has no header. (The constructor raises when the address has
  no scheme; every address the script builds begins with \<^verbatim>\<open>https:\<close>.) \<^verbatim>\<open>add_header\<close>
  stores a header in a dict, so a name that is there already keeps its place and gets the
  new value. (The library capitalises the name; both names the script uses are capitalised
  already.)
\<close>

definition Request :: "string \<Rightarrow> http_method \<Rightarrow> request" where
  "Request u m =
     \<lparr>url = fst (splittag (unwrap u)), fragment = snd (splittag (unwrap u)),
      req_method = m, headers = []\<rparr>"

definition add_header :: "string \<Rightarrow> string \<Rightarrow> request \<Rightarrow> request" where
  "add_header k v r = r\<lparr>headers := AList.update k v (headers r)\<rparr>"

definition URL :: string where
  "URL = ''https://api.github.com/repos/ClementTsang/bottom/actions/caches''"

definition cache_list_request :: "string \<Rightarrow> request" where
  "cache_list_request key =
     add_header ''Authorization'' (''Bearer '' @ key)
       (add_header ''Accept'' ''application/vnd.github+json'' (Request URL GET))"

definition delete_cache_request :: "string \<Rightarrow> json \<Rightarrow> request" where
  "delete_cache_request key cid =
     add_header ''Authorization'' (''Bearer '' @ key)
       (add_header ''Accept'' ''application/vnd.github+json''
         (Request (URL @ ''/'' @ py_str cid) DELETE))"

subsection \<open>The network and the console\<close>

text \<open>
  A successful response is given by what \<^verbatim>\<open>json.load\<close> makes of its body: \<open>None\<close>
  when the body is not a JSON document. The outcome of a request may depend on the
  requests sent before it.
\<close>

type_synonym response = "json option"

type_synonym network = "request list \<Rightarrow> request \<Rightarrow> exn + response"

record state =
  sent :: "request list"
  stdout :: "string list"

definition init :: state where
  "init = \<lparr>sent = [], stdout = []\<rparr>"

definition urlopen :: "network \<Rightarrow> request \<Rightarrow> state \<Rightarrow> (exn + response) \<times> state" where
  "urlopen net r s = (net (sent s) r, s\<lparr>sent := sent s @ [r]\<rparr>)"

definition py_print :: "string \<Rightarrow> state \<Rightarrow> state" where
  "py_print line s = s\<lparr>stdout := stdout s @ [line]\<rparr>"

definition json_load :: "response \<Rightarrow> exn + json" where
  "json_load body = (case body of None \<Rightarrow> Inl JSONDecodeError | Some v \<Rightarrow> Inr v)"

subsection \<open>\<^verbatim>\<open>main\<close>\<close>

text \<open>
  The \<^verbatim>\<open>try\<close> statement of the loop, for the cache identifier \<open>cid\<close>. The result is
  the exception that leaves the statement, if any: the two handlers are tried in the order
  of the source, the \<^verbatim>\<open>else\<close> branch runs when \<^verbatim>\<open>urlopen\<close> returns, and any
  other exception is not caught.
\<close>

definition try_delete :: "network \<Rightarrow> string \<Rightarrow> json \<Rightarrow> state \<Rightarrow> exn option \<times> state" where
  "try_delete net key cid s =
     (case urlopen net (delete_cache_request key cid)
             (py_print (''Deleting ID '' @ py_str cid @ ''...'') s) of
        (Inl e, s') \<Rightarrow>
          (case e of
             HTTPError code \<Rightarrow>
               (None, py_print (''HTTPError with delete, error code '' @ str_int code @ ''.'') s')
           | URLError \<Rightarrow> (None, py_print ''URLError with delete.'' s')
           | _ \<Rightarrow> (Some e, s'))
      | (Inr v, s') \<Rightarrow>
          (None, py_print (''Successfully deleted cache ID '' @ py_str cid @ ''!'') s'))"

text \<open>
  The loop of \<^verbatim>\<open>main\<close> over the listed caches. The result is the exception that left
  the loop, if any, with the state reached.
\<close>

fun delete_matching ::
  "network \<Rightarrow> string \<Rightarrow> string \<Rightarrow> json list \<Rightarrow> state \<Rightarrow> exn option \<times> state" where
  "delete_matching net key ref [] s = (None, s)"
| "delete_matching net key ref (cache # caches) s =
     (case py_getitem cache ''ref'' of
        Inl e \<Rightarrow> (Some e, s)
      | Inr r \<Rightarrow>
          if r = JStr ref then
            (case py_getitem cache ''id'' of
               Inl e \<Rightarrow> (Some e, s)
             | Inr cid \<Rightarrow>
                 (case try_delete net key cid s of
                    (Some e, s') \<Rightarrow> (Some e, s')
                  | (None, s') \<Rightarrow> delete_matching net key ref caches s'))
          else delete_matching net key ref caches s)"

text \<open>
  \<^verbatim>\<open>main\<close>, from the environment and the argument vector. A missing variable is a
  \<open>KeyError\<close>, a missing argument an \<open>IndexError\<close>; an exception of the list request, of
  \<^verbatim>\<open>json.load\<close>, of the subscripts or of the iteration leaves \<^verbatim>\<open>main\<close>.
\<close>

definition main :: "network \<Rightarrow> (string \<rightharpoonup> string) \<Rightarrow> string list \<Rightarrow> exn option \<times> state" where
  "main net env args =
     (case env ''GITHUB_TOKEN'' of
        None \<Rightarrow> (Some (KeyError ''GITHUB_TOKEN''), init)
      | Some key \<Rightarrow>
          if length args \<le> 1 then (Some IndexError, init)
          else
            let pr_id = args ! 1;
                ref = ''refs/pull/'' @ pr_id @ ''/merge''
            in
              (case urlopen net (cache_list_request key) init of
                 (Inl e, s) \<Rightarrow> (Some e, s)
               | (Inr response, s) \<Rightarrow>
                   (case json_load response of
                      Inl e \<Rightarrow> (Some e, s)
                    | Inr response \<Rightarrow>
                        (case py_getitem response ''actions_caches'' of
                           Inl e \<Rightarrow> (Some e, s)
                         | Inr caches \<Rightarrow>
                             (case py_iter caches of
                                Inl e \<Rightarrow> (Some e, s)
                              | Inr items \<Rightarrow> delete_matching net key ref items s)))))"

text \<open>
  The script never calls \<^verbatim>\<open>sys.exit\<close>: the interpreter exits with 0 when \<^verbatim>\<open>main\<close>
  returns and with 1 when an exception leaves it.
\<close>

fun exit_status :: "exn option \<Rightarrow> nat" where
  "exit_status None = 0"
| "exit_status (Some e) = 1"

subsection \<open>Vocabulary of the properties\<close>

text \<open>
  A cache matches a reference when its \<^verbatim>\<open>ref\<close> field is that very string; its
  identifier is its \<^verbatim>\<open>id\<close> field.
\<close>

definition matches :: "string \<Rightarrow> json \<Rightarrow> bool" where
  "matches ref c = (py_getitem c ''ref'' = Inr (JStr ref))"

definition cache_id :: "json \<Rightarrow> json" where
  "cache_id c = projr (py_getitem c ''id'')"

text \<open>
  A listed cache is well formed for a reference when the loop can read the fields it
  needs: the cache has a \<^verbatim>\<open>ref\<close> field, and an \<^verbatim>\<open>id\<close> field if it matches.
\<close>

definition well_formed :: "string \<Rightarrow> json \<Rightarrow> bool" where
  "well_formed ref c =
     (case py_getitem c ''ref'' of
        Inl e \<Rightarrow> False
      | Inr r \<Rightarrow> r = JStr ref \<longrightarrow> \<not> isl (py_getitem c ''id''))"

text \<open>
  The outcomes of a delete request after which the loop goes on: a response, an
  \<open>HTTPError\<close> or a \<open>URLError\<close>.
\<close>

fun handled :: "exn + response \<Rightarrow> bool" where
  "handled (Inr v) = True"
| "handled (Inl (HTTPError code)) = True"
| "handled (Inl URLError) = True"
| "handled (Inl e) = False"

subsection \<open>Example runs\<close>

text \<open>
  Five caches are listed for pull request 42; the first delete request is answered with
  status 404, the second is not answered at all.
\<close>

definition example_caches :: "json list" where
  "example_caches =
     [JObj [(''id'', JInt 1), (''ref'', JStr ''refs/pull/42/merge''), (''key'', JStr ''cargo-a'')],
      JObj [(''id'', JInt 2), (''ref'', JStr ''refs/pull/42/head'')],
      JObj [(''id'', JInt 3), (''ref'', JStr ''REFS/PULL/42/MERGE'')],
      JObj [(''id'', JInt 4), (''ref'', JStr ''refs/pull/42/merge'')],
      JObj [(''id'', JInt 5), (''ref'', JStr ''refs/heads/main'')]]"

definition example_body :: json where
  "example_body = JObj [(''total_count'', JInt 5), (''actions_caches'', JArr example_caches)]"

definition example_net :: network where
  "example_net h r =
     (if req_method r = GET then Inr (Some example_body)
      else if length h = 1 then Inl (HTTPError 404)
      else if length h = 2 then Inl URLError
      else Inr None)"

definition example_env :: "string \<rightharpoonup> string" where
  "example_env = map_of [(''GITHUB_TOKEN'', ''t0k'')]"

definition example_args :: "string list" where
  "example_args = [''scripts/clear_cache.py'', ''42'']"

text \<open>A network where every request fails, and an environment with an empty token.\<close>

definition offline :: network where
  "offline h r = Inl URLError"

definition empty_token_env :: "string \<rightharpoonup> string" where
  "empty_token_env = map_of [(''GITHUB_TOKEN'', '''')]"

text \<open>
  A response that lists one cache, for an argument that is no number; a response whose
  second cache has no \<^verbatim>\<open>ref\<close>; a response that is not JSON.
\<close>

definition probe_net :: network where
  "probe_net h r =
     (if req_method r = GET
      then Inr (Some (JObj [(''actions_caches'',
             JArr [JObj [(''id'', JInt 7), (''ref'', JStr ''refs/pull/../x y/merge'')]])]))
      else Inr None)"

definition broken_caches :: "json list" where
  "broken_caches =
     [JObj [(''id'', JInt 1), (''ref'', JStr ''refs/pull/42/merge'')],
      JObj [(''id'', JInt 2)],
      JObj [(''id'', JInt 3), (''ref'', JStr ''refs/pull/42/merge'')]]"

definition broken_net :: network where
  "broken_net h r =
     (if req_method r = GET then Inr (Some (JObj [(''actions_caches'', JArr broken_caches)]))
      else Inr None)"

definition garbled_net :: network where
  "garbled_net h r = Inr None"

text \<open>
  A network that lists the five caches and on which every delete request ends in an
  exception that is not a \<open>URLError\<close>; and one that lists two caches whose identifiers are
  strings, the first with a space at its end, the second with a \<^verbatim>\<open>#\<close> in it.
\<close>

definition reset_net :: network where
  "reset_net h r =
     (if req_method r = GET then Inr (Some example_body) else Inl OtherError)"

definition odd_ids_net :: network where
  "odd_ids_net h r =
     (if req_method r = GET
      then Inr (Some (JObj [(''actions_caches'',
             JArr [JObj [(''id'', JStr ''7 ''), (''ref'', JStr ''refs/pull/42/merge'')],
                   JObj [(''id'', JStr ''a#b''), (''ref'', JStr ''refs/pull/42/merge'')]])]))
      else Inr None)"

section \<open>Properties\<close>

subsection \<open>The \<^verbatim>\<open>try\<close> statement and the loop\<close>

lemma method_delete_cache_request [simp]: "req_method (delete_cache_request key cid) = DELETE"
  by (simp add: delete_cache_request_def add_header_def Request_def)

lemma method_cache_list_request [simp]: "req_method (cache_list_request key) = GET"
  by (simp add: cache_list_request_def add_header_def Request_def)

lemma not_handled:
  assumes "\<not> handled x"
  shows "\<exists>e. x = Inl e \<and> e \<noteq> URLError \<and> (\<forall>code. e \<noteq> HTTPError code)"
  using assms by (cases x rule: handled.cases) auto

lemma try_delete_sent [simp]:
  "sent (snd (try_delete net key cid s)) = sent s @ [delete_cache_request key cid]"
proof (cases "net (sent s) (delete_cache_request key cid)")
  case (Inl e)
  then show ?thesis
    by (cases e) (simp_all add: try_delete_def urlopen_def py_print_def)
next
  case (Inr v)
  then show ?thesis
    by (simp add: try_delete_def urlopen_def py_print_def)
qed

lemma try_delete_handled:
  assumes "handled (net (sent s) (delete_cache_request key cid))"
  shows "fst (try_delete net key cid s) = None"
proof (cases "net (sent s) (delete_cache_request key cid)")
  case (Inl e)
  with assms show ?thesis
    by (cases e) (simp_all add: try_delete_def urlopen_def py_print_def)
next
  case (Inr v)
  then show ?thesis
    by (simp add: try_delete_def urlopen_def py_print_def)
qed

lemma try_delete_not_handled:
  assumes "\<not> handled (net (sent s) (delete_cache_request key cid))"
  shows "fst (try_delete net key cid s) \<noteq> None"
proof -
  from not_handled [OF assms]
  obtain e where "net (sent s) (delete_cache_request key cid) = Inl e"
    and "e \<noteq> URLError" and "\<forall>code. e \<noteq> HTTPError code"
    by blast
  then show ?thesis
    by (cases e) (simp_all add: try_delete_def urlopen_def py_print_def)
qed

lemma delete_matching_sent_grows:
  "\<exists>rs. sent (snd (delete_matching net key ref caches s)) = sent s @ rs"
proof (induction caches arbitrary: s)
  case Nil
  show ?case by simp
next
  case (Cons c cs)
  obtain x s' where t: "try_delete net key (cache_id c) s = (x, s')"
    by (cases "try_delete net key (cache_id c) s") auto
  have s': "sent s' = sent s @ [delete_cache_request key (cache_id c)]"
    using try_delete_sent [of net key "cache_id c" s] t by simp
  from Cons.IH [of s] Cons.IH [of s'] s' t show ?case
    by (auto simp: cache_id_def split: sum.splits option.splits)
qed

lemma delete_matching_append:
  "delete_matching net key ref (pre @ post) s =
     (case delete_matching net key ref pre s of
        (None, s') \<Rightarrow> delete_matching net key ref post s'
      | (Some e, s') \<Rightarrow> (Some e, s'))"
  by (induction pre arbitrary: s) (auto split: sum.splits prod.splits option.splits)

lemma delete_matching_requests:
  assumes "r \<in> set (sent (snd (delete_matching net key ref caches s)))"
  shows "r \<in> set (sent s) \<or>
         (\<exists>c \<in> set caches. matches ref c \<and> \<not> isl (py_getitem c ''id'') \<and>
            r = delete_cache_request key (cache_id c))"
  using assms
proof (induction caches arbitrary: s)
  case Nil
  then show ?case by simp
next
  case (Cons c cs)
  obtain x s' where t: "try_delete net key (cache_id c) s = (x, s')"
    by (cases "try_delete net key (cache_id c) s") auto
  have s': "sent s' = sent s @ [delete_cache_request key (cache_id c)]"
    using try_delete_sent [of net key "cache_id c" s] t by simp
  show ?case
  proof (cases "matches ref c \<and> \<not> isl (py_getitem c ''id'')")
    case False
    with Cons.prems Cons.IH [of s] show ?thesis
      by (auto simp: matches_def split: sum.splits if_splits)
  next
    case True
    then obtain cid where "py_getitem c ''ref'' = Inr (JStr ref)" "py_getitem c ''id'' = Inr cid"
      by (cases "py_getitem c ''id''") (auto simp: matches_def)
    with Cons.prems Cons.IH [of s'] s' t True show ?thesis
      by (cases x) (auto simp: cache_id_def)
  qed
qed

lemma delete_matching_well_formed:
  assumes "\<forall>c \<in> set caches. well_formed ref c"
    and "\<And>h r. req_method r = DELETE \<Longrightarrow> handled (net h r)"
  shows "fst (delete_matching net key ref caches s) = None \<and>
         sent (snd (delete_matching net key ref caches s)) =
           sent s @ map (\<lambda>c. delete_cache_request key (cache_id c)) (filter (matches ref) caches)"
  using assms(1)
proof (induction caches arbitrary: s)
  case Nil
  show ?case by simp
next
  case (Cons c cs)
  from Cons.prems obtain r where r: "py_getitem c ''ref'' = Inr r"
    by (auto simp: well_formed_def split: sum.splits)
  from Cons.prems have cs: "\<forall>c \<in> set cs. well_formed ref c" by simp
  show ?case
  proof (cases "r = JStr ref")
    case False
    with r have "\<not> matches ref c" by (simp add: matches_def)
    with r False Cons.IH [OF cs, of s] show ?thesis by simp
  next
    case True
    with r Cons.prems obtain cid where cid: "py_getitem c ''id'' = Inr cid"
      by (cases "py_getitem c ''id''") (auto simp: well_formed_def)
    obtain x s' where t: "try_delete net key cid s = (x, s')"
      by (cases "try_delete net key cid s") auto
    have "handled (net (sent s) (delete_cache_request key cid))"
      by (rule assms(2)) simp
    then have "fst (try_delete net key cid s) = None"
      by (rule try_delete_handled)
    with t have x: "x = None" by simp
    have s': "sent s' = sent s @ [delete_cache_request key cid]"
      using try_delete_sent [of net key cid s] t by simp
    from r True have "matches ref c" by (simp add: matches_def)
    moreover from cid have "cache_id c = cid" by (simp add: cache_id_def)
    ultimately show ?thesis
      using r True cid t x s' Cons.IH [OF cs, of s'] by simp
  qed
qed

lemma main_listed:
  assumes "env ''GITHUB_TOKEN'' = Some key" and "1 < length args"
    and "net [] (cache_list_request key) = Inr (Some body)"
    and "py_getitem body ''actions_caches'' = Inr caches"
    and "py_iter caches = Inr items"
  shows "main net env args =
           delete_matching net key (''refs/pull/'' @ args ! 1 @ ''/merge'') items
             \<lparr>sent = [cache_list_request key], stdout = []\<rparr>"
  using assms by (simp add: main_def urlopen_def init_def json_load_def)

lemma main_sent_first:
  assumes "env ''GITHUB_TOKEN'' = Some key" and "1 < length args"
  shows "\<exists>rs. sent (snd (main net env args)) = cache_list_request key # rs"
proof -
  have *: "\<exists>rs. sent (snd (delete_matching net key ref items
              \<lparr>sent = [cache_list_request key], stdout = []\<rparr>)) = cache_list_request key # rs"
    for ref items
    using delete_matching_sent_grows
      [of net key ref items "\<lparr>sent = [cache_list_request key], stdout = []\<rparr>"]
    by simp
  show ?thesis
    using assms *
    by (simp add: main_def urlopen_def init_def json_load_def split: sum.splits option.splits)
qed

lemma delete_neq_list [simp]: "delete_cache_request key cid \<noteq> cache_list_request key'"
proof
  assume "delete_cache_request key cid = cache_list_request key'"
  then have "req_method (delete_cache_request key cid) = req_method (cache_list_request key')"
    by simp
  then show False by simp
qed

lemma headers_cache_list_request:
  "headers (cache_list_request key) =
     [(''Accept'', ''application/vnd.github+json''), (''Authorization'', ''Bearer '' @ key)]"
  by (simp add: cache_list_request_def add_header_def Request_def)

lemma headers_delete_cache_request:
  "headers (delete_cache_request key cid) =
     [(''Accept'', ''application/vnd.github+json''), (''Authorization'', ''Bearer '' @ key)]"
  by (simp add: delete_cache_request_def add_header_def Request_def)

text \<open>What the constructor makes of the addresses the script builds.\<close>

lemma rstrip_append:
  assumes "a \<noteq> []" and "\<not> py_isspace (last a)"
  shows "rstrip (a @ t) = a @ rstrip t"
proof -
  have a: "dropWhile py_isspace (rev a) = rev a"
    using assms by (cases a rule: rev_cases) simp_all
  have "dropWhile py_isspace (rev t @ rev a) = dropWhile py_isspace (rev t) @ rev a"
    using a by (simp add: dropWhile_append)
  then show ?thesis by (simp add: rstrip_def)
qed

lemma splittag_append:
  assumes "CHR ''#'' \<notin> set a"
  shows "splittag (a @ t) = (a @ fst (splittag t), snd (splittag t))"
proof (cases "CHR ''#'' \<in> set t")
  case False
  with assms show ?thesis by (simp add: splittag_def)
next
  case True
  then have in_rev: "CHR ''#'' \<in> set (rev t)" by simp
  then have d: "dropWhile (\<lambda>c. c \<noteq> CHR ''#'') (rev t @ rev a) =
      dropWhile (\<lambda>c. c \<noteq> CHR ''#'') (rev t) @ rev a"
    by (intro dropWhile_append1 [of "CHR ''#''"]) simp_all
  from in_rev have ne: "dropWhile (\<lambda>c. c \<noteq> CHR ''#'') (rev t) \<noteq> []"
    by (simp add: dropWhile_eq_Nil_conv)
  from in_rev have t: "takeWhile (\<lambda>c. c \<noteq> CHR ''#'') (rev t @ rev a) =
      takeWhile (\<lambda>c. c \<noteq> CHR ''#'') (rev t)"
    by (intro takeWhile_append1 [of "CHR ''#''"]) simp_all
  from True d ne t show ?thesis by (simp add: splittag_def)
qed

lemma dropWhile_hd:
  assumes "xs \<noteq> []" and "\<not> P (hd xs)"
  shows "dropWhile P (xs @ t) = xs @ t"
  using assms by (cases xs) simp_all

lemma URL_facts:
  "URL \<noteq> []" "\<not> py_isspace (hd URL)" "\<not> py_isspace (last URL)" "CHR ''#'' \<notin> set URL"
  "take 1 URL = ''h''" "take 4 URL = ''http''"
  by (simp_all add: URL_def py_isspace_def)

lemma unwrap_URL_append: "unwrap (URL @ t) = URL @ rstrip t"
proof -
  have "dropWhile py_isspace (URL @ t) = URL @ t"
    using URL_facts(1,2) by (rule dropWhile_hd)
  then have s: "strip (URL @ t) = URL @ rstrip t"
    using URL_facts(1,3) by (simp add: strip_def rstrip_append)
  have "take 1 (URL @ rstrip t) = ''h''" "take 4 (URL @ rstrip t) = ''http''"
    by (simp_all add: URL_def)
  with s show ?thesis by (simp add: unwrap_def)
qed

lemma rstrip_slash: "rstrip (''/'' @ t) = ''/'' @ rstrip t"
  by (rule rstrip_append) (simp_all add: py_isspace_def)

lemma Request_URL_append:
  "Request (URL @ CHR ''/'' # t) m =
     \<lparr>url = URL @ CHR ''/'' # fst (splittag (rstrip t)), fragment = snd (splittag (rstrip t)),
      req_method = m, headers = []\<rparr>"
proof -
  have "unwrap (URL @ ''/'' @ t) = (URL @ ''/'') @ rstrip t"
    using unwrap_URL_append [of "''/'' @ t"] rstrip_slash [of t] by simp
  moreover have "CHR ''#'' \<notin> set (URL @ ''/'')"
    using URL_facts(4) by simp
  ultimately show ?thesis
    by (simp add: Request_def splittag_append del: append_assoc)
qed

lemma Request_URL:
  "Request URL m = \<lparr>url = URL, fragment = None, req_method = m, headers = []\<rparr>"
proof -
  have "unwrap URL = URL"
    using unwrap_URL_append [of "[]"] by (simp add: rstrip_def)
  with URL_facts(4) show ?thesis by (simp add: Request_def splittag_def)
qed

lemma cache_list_request_eq:
  "cache_list_request key =
     \<lparr>url = URL, fragment = None, req_method = GET,
      headers = [(''Accept'', ''application/vnd.github+json''),
                 (''Authorization'', ''Bearer '' @ key)]\<rparr>"
  by (simp add: cache_list_request_def add_header_def Request_URL)

lemma delete_cache_request_eq:
  "delete_cache_request key cid =
     \<lparr>url = URL @ ''/'' @ fst (splittag (rstrip (py_str cid))),
      fragment = snd (splittag (rstrip (py_str cid))), req_method = DELETE,
      headers = [(''Accept'', ''application/vnd.github+json''),
                 (''Authorization'', ''Bearer '' @ key)]\<rparr>"
  by (simp add: delete_cache_request_def add_header_def Request_URL_append)

lemma digit_plain:
  assumes "k < 10"
  shows "\<not> py_isspace (''0123456789'' ! k) \<and> ''0123456789'' ! k \<noteq> CHR ''#''"
proof -
  have "\<forall>c \<in> set ''0123456789''. \<not> py_isspace c \<and> c \<noteq> CHR ''#''"
    by (simp add: py_isspace_def)
  moreover have "''0123456789'' ! k \<in> set ''0123456789''"
    using assms by (intro nth_mem) simp
  ultimately show ?thesis by blast
qed

lemma str_nat_plain:
  "str_nat n \<noteq> [] \<and> (\<forall>c \<in> set (str_nat n). \<not> py_isspace c \<and> c \<noteq> CHR ''#'')"
proof (induction n rule: str_nat.induct)
  case (1 n)
  show ?case
  proof (cases "n < 10")
    case True
    then have "str_nat n = [''0123456789'' ! n]"
      by (subst str_nat.simps) simp
    with digit_plain [OF True] show ?thesis by simp
  next
    case False
    then have "str_nat n = str_nat (n div 10) @ [''0123456789'' ! (n mod 10)]"
      by (subst str_nat.simps) simp
    moreover have "n mod 10 < 10" by simp
    ultimately show ?thesis using "1" [OF False] digit_plain [of "n mod 10"] by auto
  qed
qed

lemma str_int_plain:
  "str_int i \<noteq> [] \<and> (\<forall>c \<in> set (str_int i). \<not> py_isspace c \<and> c \<noteq> CHR ''#'')"
proof (cases "i < 0")
  case True
  then have "str_int i = CHR ''-'' # str_nat (nat (- i))" by (simp add: str_int_def)
  moreover have "\<not> py_isspace CHR ''-''" by (simp add: py_isspace_def)
  ultimately show ?thesis using str_nat_plain [of "nat (- i)"] by simp
next
  case False
  then have "str_int i = str_nat (nat i)" by (simp add: str_int_def)
  then show ?thesis using str_nat_plain [of "nat i"] by simp
qed

lemma plain_splittag:
  assumes "CHR ''#'' \<notin> set t"
  shows "splittag t = (t, None)"
  using assms by (simp add: splittag_def)

lemma plain_rstrip:
  assumes "t \<noteq> []" and "\<not> py_isspace (last t)"
  shows "rstrip t = t"
  using rstrip_append [OF assms, of "[]"] by (simp add: rstrip_def)

lemma delete_cache_request_int:
  "delete_cache_request key (JInt i) =
     \<lparr>url = URL @ ''/'' @ str_int i, fragment = None, req_method = DELETE,
      headers = [(''Accept'', ''application/vnd.github+json''),
                 (''Authorization'', ''Bearer '' @ key)]\<rparr>"
proof -
  from str_int_plain [of i] have "last (str_int i) \<in> set (str_int i)" by simp
  with str_int_plain [of i] have "rstrip (str_int i) = str_int i"
    by (intro plain_rstrip) blast+
  moreover from str_int_plain [of i] have "splittag (str_int i) = (str_int i, None)"
    by (intro plain_splittag) blast
  ultimately show ?thesis by (simp add: delete_cache_request_eq)
qed

lemma main_requests:
  assumes "env ''GITHUB_TOKEN'' = Some key"
    and "r \<in> set (sent (snd (main net env args)))"
  shows "r = cache_list_request key \<or>
         (\<exists>body caches items. net [] (cache_list_request key) = Inr (Some body) \<and>
            py_getitem body ''actions_caches'' = Inr caches \<and> py_iter caches = Inr items \<and>
            (\<exists>c \<in> set items. matches (''refs/pull/'' @ args ! 1 @ ''/merge'') c \<and>
               \<not> isl (py_getitem c ''id'') \<and> r = delete_cache_request key (cache_id c)))"
proof (cases "1 < length args")
  case False
  with assms show ?thesis by (simp add: main_def init_def)
next
  case True
  let ?s = "\<lparr>sent = [cache_list_request key], stdout = []\<rparr>"
  let ?ref = "''refs/pull/'' @ args ! 1 @ ''/merge''"
  show ?thesis
  proof (cases "\<exists>body caches items. net [] (cache_list_request key) = Inr (Some body) \<and>
            py_getitem body ''actions_caches'' = Inr caches \<and> py_iter caches = Inr items")
    case False
    with assms True have "sent (snd (main net env args)) = [cache_list_request key]"
      by (auto simp: main_def urlopen_def init_def json_load_def
            split: sum.splits option.splits)
    with assms(2) show ?thesis by simp
  next
    case True
    then obtain body caches items where l: "net [] (cache_list_request key) = Inr (Some body)"
      "py_getitem body ''actions_caches'' = Inr caches" "py_iter caches = Inr items"
      by blast
    with assms(1) \<open>1 < length args\<close>
    have "main net env args = delete_matching net key ?ref items ?s"
      by (rule main_listed)
    with assms(2) have "r \<in> set (sent (snd (delete_matching net key ?ref items ?s)))"
      by simp
    then have "r \<in> set (sent ?s) \<or>
         (\<exists>c \<in> set items. matches ?ref c \<and> \<not> isl (py_getitem c ''id'') \<and>
            r = delete_cache_request key (cache_id c))"
      by (rule delete_matching_requests)
    with l show ?thesis by auto
  qed
qed

lemma delete_matching_sent_deletes:
  "\<exists>rs. sent (snd (delete_matching net key ref caches s)) = sent s @ rs \<and>
     (\<forall>r \<in> set rs. \<exists>c \<in> set caches. matches ref c \<and> \<not> isl (py_getitem c ''id'') \<and>
        r = delete_cache_request key (cache_id c))"
proof (induction caches arbitrary: s)
  case Nil
  show ?case by simp
next
  case (Cons c cs)
  let ?P = "\<lambda>cs r. \<exists>c \<in> set cs. matches ref c \<and> \<not> isl (py_getitem c ''id'') \<and>
        r = delete_cache_request key (cache_id c)"
  have weaken: "\<forall>r \<in> set rs. ?P (c # cs) r" if "\<forall>r \<in> set rs. ?P cs r" for rs
    using that by auto
  obtain x s' where t: "try_delete net key (cache_id c) s = (x, s')"
    by (cases "try_delete net key (cache_id c) s") auto
  have s': "sent s' = sent s @ [delete_cache_request key (cache_id c)]"
    using try_delete_sent [of net key "cache_id c" s] t by simp
  show ?case
  proof (cases "matches ref c \<and> \<not> isl (py_getitem c ''id'')")
    case False
    have "(\<exists>e. delete_matching net key ref (c # cs) s = (Some e, s)) \<or>
          delete_matching net key ref (c # cs) s = delete_matching net key ref cs s"
    proof (cases "py_getitem c ''ref''")
      case (Inl e)
      then show ?thesis by simp
    next
      case r: (Inr r)
      show ?thesis
      proof (cases "r = JStr ref")
        case neq: False
        with r show ?thesis by simp
      next
        case eq: True
        with r False have "isl (py_getitem c ''id'')" by (simp add: matches_def)
        then obtain e where "py_getitem c ''id'' = Inl e"
          by (cases "py_getitem c ''id''") auto
        with r eq show ?thesis by simp
      qed
    qed
    then consider (stop) e where "delete_matching net key ref (c # cs) s = (Some e, s)"
      | (skip) "delete_matching net key ref (c # cs) s = delete_matching net key ref cs s"
      by blast
    then show ?thesis
    proof cases
      case stop
      then show ?thesis by simp
    next
      case skip
      from Cons.IH [of s] obtain rs where
        "sent (snd (delete_matching net key ref cs s)) = sent s @ rs" "\<forall>r \<in> set rs. ?P cs r"
        by blast
      with skip weaken [of rs] show ?thesis by auto
    qed
  next
    case True
    then obtain cid where "py_getitem c ''ref'' = Inr (JStr ref)" and cid: "py_getitem c ''id'' = Inr cid"
      by (cases "py_getitem c ''id''") (auto simp: matches_def)
    moreover from cid have "cache_id c = cid" by (simp add: cache_id_def)
    ultimately consider (raise) e where "delete_matching net key ref (c # cs) s = (Some e, s')"
      | (go_on) "delete_matching net key ref (c # cs) s = delete_matching net key ref cs s'"
      using t by (cases x) auto
    then show ?thesis
    proof cases
      case raise
      have "\<forall>r \<in> set [delete_cache_request key (cache_id c)]. ?P (c # cs) r"
        using True by simp
      with raise s' show ?thesis by (intro exI [of _ "[delete_cache_request key (cache_id c)]"]) simp
    next
      case go_on
      from Cons.IH [of s'] obtain rs where
        rs: "sent (snd (delete_matching net key ref cs s')) = sent s' @ rs" "\<forall>r \<in> set rs. ?P cs r"
        by blast
      have "\<forall>r \<in> set (delete_cache_request key (cache_id c) # rs). ?P (c # cs) r"
        using True weaken [OF rs(2)] by simp
      with go_on rs(1) s' show ?thesis
        by (intro exI [of _ "delete_cache_request key (cache_id c) # rs"]) simp
    qed
  qed
qed

lemma delete_matching_raises:
  assumes "\<forall>c \<in> set caches. well_formed ref c"
    and "fst (delete_matching net key ref caches s) \<noteq> None"
  shows "\<exists>h r. sent (snd (delete_matching net key ref caches s)) = h @ [r] \<and>
           length (sent s) \<le> length h \<and> req_method r = DELETE \<and> \<not> handled (net h r)"
  using assms
proof (induction caches arbitrary: s)
  case Nil
  then show ?case by simp
next
  case (Cons c cs)
  from Cons.prems(1) obtain r where r: "py_getitem c ''ref'' = Inr r"
    by (auto simp: well_formed_def split: sum.splits)
  from Cons.prems(1) have cs: "\<forall>c \<in> set cs. well_formed ref c" by simp
  show ?case
  proof (cases "r = JStr ref")
    case False
    with r Cons.prems(2) Cons.IH [OF cs, of s] show ?thesis by simp
  next
    case True
    with r Cons.prems(1) obtain cid where cid: "py_getitem c ''id'' = Inr cid"
      by (cases "py_getitem c ''id''") (auto simp: well_formed_def)
    obtain x s' where t: "try_delete net key cid s = (x, s')"
      by (cases "try_delete net key cid s") auto
    have s': "sent s' = sent s @ [delete_cache_request key cid]"
      using try_delete_sent [of net key cid s] t by simp
    show ?thesis
    proof (cases x)
      case (Some e)
      with t have "fst (try_delete net key cid s) \<noteq> None" by simp
      have "\<not> handled (net (sent s) (delete_cache_request key cid))"
      proof
        assume "handled (net (sent s) (delete_cache_request key cid))"
        then have "fst (try_delete net key cid s) = None" by (rule try_delete_handled)
        with t Some show False by simp
      qed
      moreover from Some r True cid t
      have "delete_matching net key ref (c # cs) s = (Some e, s')" by simp
      ultimately show ?thesis using s' by simp
    next
      case None
      with r True cid t
      have step: "delete_matching net key ref (c # cs) s = delete_matching net key ref cs s'"
        by simp
      with Cons.prems(2) have "fst (delete_matching net key ref cs s') \<noteq> None" by simp
      from Cons.IH [OF cs this] obtain h q where
        "sent (snd (delete_matching net key ref cs s')) = h @ [q]" "length (sent s') \<le> length h"
        "req_method q = DELETE" "\<not> handled (net h q)"
        by blast
      with step s' show ?thesis by auto
    qed
  qed
qed

subsection \<open>The example run\<close>

lemma example_well_formed: "\<forall>c \<in> set example_caches. well_formed ''refs/pull/42/merge'' c"
  by (simp add: example_caches_def well_formed_def)

lemma example_handled: "req_method r = DELETE \<Longrightarrow> handled (example_net h r)"
  by (simp add: example_net_def)

lemma example_listing: "example_net [] (cache_list_request ''t0k'') = Inr (Some example_body)"
  by (simp add: example_net_def)

lemma example_matching:
  "filter (matches ''refs/pull/42/merge'') example_caches =
     [JObj [(''id'', JInt 1), (''ref'', JStr ''refs/pull/42/merge''), (''key'', JStr ''cargo-a'')],
      JObj [(''id'', JInt 4), (''ref'', JStr ''refs/pull/42/merge'')]]"
  by (simp add: example_caches_def matches_def)

lemma example_matching_set:
  "{c \<in> set example_caches. py_getitem c ''ref'' = Inr (JStr ''refs/pull/42/merge'')} =
     {JObj [(''id'', JInt 1), (''ref'', JStr ''refs/pull/42/merge''), (''key'', JStr ''cargo-a'')],
      JObj [(''id'', JInt 4), (''ref'', JStr ''refs/pull/42/merge'')]}"
proof -
  have "{c \<in> set example_caches. py_getitem c ''ref'' = Inr (JStr ''refs/pull/42/merge'')} =
      set (filter (matches ''refs/pull/42/merge'') example_caches)"
    by (auto simp: matches_def)
  then show ?thesis by (simp add: example_matching)
qed

lemma delete_cache_request_example_neq:
  "delete_cache_request ''t0k'' (JInt 2) \<noteq> delete_cache_request ''t0k'' (JInt 1)"
  "delete_cache_request ''t0k'' (JInt 2) \<noteq> delete_cache_request ''t0k'' (JInt 4)"
  "delete_cache_request ''t0k'' (JInt 3) \<noteq> delete_cache_request ''t0k'' (JInt 1)"
  "delete_cache_request ''t0k'' (JInt 3) \<noteq> delete_cache_request ''t0k'' (JInt 4)"
  by (simp_all add: delete_cache_request_int str_int_def str_nat.simps)

lemma example_run:
  "fst (main example_net example_env example_args) = None"
  "sent (snd (main example_net example_env example_args)) =
     [cache_list_request ''t0k'',
      delete_cache_request ''t0k'' (JInt 1),
      delete_cache_request ''t0k'' (JInt 4)]"
proof -
  let ?s = "\<lparr>sent = [cache_list_request ''t0k''], stdout = []\<rparr>"
  have run: "main example_net example_env example_args =
      delete_matching example_net ''t0k'' ''refs/pull/42/merge'' example_caches ?s"
    using main_listed [of example_env "''t0k''" example_args example_net example_body
        "JArr example_caches" example_caches] example_listing
    by (simp add: example_env_def example_args_def example_body_def)
  have "fst (delete_matching example_net ''t0k'' ''refs/pull/42/merge'' example_caches ?s) = None \<and>
        sent (snd (delete_matching example_net ''t0k'' ''refs/pull/42/merge'' example_caches ?s)) =
          sent ?s @ map (\<lambda>c. delete_cache_request ''t0k'' (cache_id c))
            (filter (matches ''refs/pull/42/merge'') example_caches)"
    using example_well_formed example_handled by (rule delete_matching_well_formed)
  then show "fst (main example_net example_env example_args) = None"
    and "sent (snd (main example_net example_env example_args)) =
     [cache_list_request ''t0k'',
      delete_cache_request ''t0k'' (JInt 1),
      delete_cache_request ''t0k'' (JInt 4)]"
    unfolding run by (simp_all add: example_matching cache_id_def)
qed

lemma example_stdout:
  "stdout (snd (main example_net example_env example_args)) =
     [''Deleting ID 1...'', ''HTTPError with delete, error code 404.'',
      ''Deleting ID 4...'', ''URLError with delete.'']"
  by (simp add: main_def example_net_def example_env_def example_args_def example_body_def
        example_caches_def urlopen_def init_def json_load_def try_delete_def py_print_def
        str_int_def str_nat.simps)

lemma broken_listing:
  "broken_net [] (cache_list_request ''t0k'') =
     Inr (Some (JObj [(''actions_caches'', JArr broken_caches)]))"
  by (simp add: broken_net_def)

lemma broken_handled: "req_method r = DELETE \<Longrightarrow> handled (broken_net h r)"
  by (simp add: broken_net_def)

lemma reset_run:
  "main reset_net example_env example_args =
     (Some OtherError,
      \<lparr>sent = [cache_list_request ''t0k'', delete_cache_request ''t0k'' (JInt 1)],
       stdout = [''Deleting ID 1...'']\<rparr>)"
  by (simp add: main_def reset_net_def example_env_def example_args_def example_body_def
        example_caches_def urlopen_def init_def json_load_def try_delete_def py_print_def
        str_int_def str_nat.simps)

lemma odd_ids_run:
  "sent (snd (main odd_ids_net example_env example_args)) =
     [cache_list_request ''t0k'', delete_cache_request ''t0k'' (JStr ''7 ''),
      delete_cache_request ''t0k'' (JStr ''a#b'')]"
  by (simp add: main_def odd_ids_net_def example_env_def example_args_def
        urlopen_def init_def json_load_def try_delete_def py_print_def)

subsection \<open>The claims\<close>

text \<open>
  C2. When the list response holds N caches whose reference is the derived reference (and
  every listed cache is well formed), the requests sent are the list request and then one
  delete request for each of the N caches, in the order of the response; a delete request
  that fails with an \<open>HTTPError\<close> or a \<open>URLError\<close> does not stop the later ones, and
  \<^verbatim>\<open>main\<close> returns without an exception. With N = 0 only the list request is sent.
\<close>

theorem deletes_attempted_in_order:
  assumes "env ''GITHUB_TOKEN'' = Some key" and "1 < length args"
    and "ref = ''refs/pull/'' @ args ! 1 @ ''/merge''"
    and "net [] (cache_list_request key) = Inr (Some body)"
    and "py_getitem body ''actions_caches'' = Inr (JArr entries)"
    and "\<forall>c \<in> set entries. well_formed ref c"
    and "\<And>h r. req_method r = DELETE \<Longrightarrow> handled (net h r)"
  shows "sent (snd (main net env args)) =
           cache_list_request key #
             map (\<lambda>c. delete_cache_request key (cache_id c)) (filter (matches ref) entries)
         \<and> length (tl (sent (snd (main net env args)))) = length (filter (matches ref) entries)
         \<and> fst (main net env args) = None"
proof -
  have run: "main net env args =
      delete_matching net key ref entries \<lparr>sent = [cache_list_request key], stdout = []\<rparr>"
    unfolding assms(3) using assms(1,2,4,5)
    by (simp add: main_listed [where caches = "JArr entries"])
  have "fst (delete_matching net key ref entries
               \<lparr>sent = [cache_list_request key], stdout = []\<rparr>) = None \<and>
        sent (snd (delete_matching net key ref entries
               \<lparr>sent = [cache_list_request key], stdout = []\<rparr>)) =
          sent \<lparr>sent = [cache_list_request key], stdout = []\<rparr> @
            map (\<lambda>c. delete_cache_request key (cache_id c)) (filter (matches ref) entries)"
    using assms(6,7) by (rule delete_matching_well_formed)
  then show ?thesis unfolding run by simp
qed

theorem deletes_attempted_in_order_witness:
  "sent (snd (main example_net example_env example_args)) =
     [cache_list_request ''t0k'',
      delete_cache_request ''t0k'' (JInt 1),
      delete_cache_request ''t0k'' (JInt 4)]
   \<and> fst (main example_net example_env example_args) = None"
  using deletes_attempted_in_order [of example_env "''t0k''" example_args "''refs/pull/42/merge''"
      example_net example_body example_caches] example_well_formed example_handled example_listing
  by (simp add: example_env_def example_args_def example_body_def example_matching cache_id_def)

text \<open>
  C3. When the list request fails, with whatever exception, that exception leaves
  \<^verbatim>\<open>main\<close>: the list request is the only request sent (it is not repeated and no
  delete request follows), nothing is printed, and the exit status is 1.
\<close>

theorem list_failure_is_fatal:
  assumes "env ''GITHUB_TOKEN'' = Some key" and "1 < length args"
    and "net [] (cache_list_request key) = Inl e"
  shows "main net env args = (Some e, \<lparr>sent = [cache_list_request key], stdout = []\<rparr>)
         \<and> exit_status (fst (main net env args)) = 1"
  using assms by (simp add: main_def urlopen_def init_def)

theorem list_failure_is_fatal_witness:
  "main offline example_env example_args =
     (Some URLError, \<lparr>sent = [cache_list_request ''t0k''], stdout = []\<rparr>)
   \<and> exit_status (fst (main offline example_env example_args)) = 1"
  using list_failure_is_fatal [of example_env "''t0k''" example_args offline URLError]
  by (simp add: example_env_def example_args_def offline_def)

text \<open>
  C4 (amended). For a cache that matches and has an identifier: when its delete request
  fails with an \<open>HTTPError\<close>, the loop prints the line with the status code and goes on
  with the remaining caches; when it fails with a \<open>URLError\<close>, the loop prints the line
  without a code and goes on. In both cases one request was sent (no second attempt) and
  the line of success is not printed. A failure that reaches the script as any other
  exception is not caught: it leaves the loop after the one request, with only the line
  of the attempt printed.
\<close>

theorem delete_failure_is_logged_and_skipped:
  assumes "py_getitem cache ''ref'' = Inr (JStr ref)" and "py_getitem cache ''id'' = Inr cid"
  shows "(net (sent s) (delete_cache_request key cid) = Inl (HTTPError code) \<longrightarrow>
            delete_matching net key ref (cache # caches) s =
              delete_matching net key ref caches
                (s\<lparr>sent := sent s @ [delete_cache_request key cid],
                   stdout := stdout s @
                     [''Deleting ID '' @ py_str cid @ ''...'',
                      ''HTTPError with delete, error code '' @ str_int code @ ''.'']\<rparr>))
       \<and> (net (sent s) (delete_cache_request key cid) = Inl URLError \<longrightarrow>
            delete_matching net key ref (cache # caches) s =
              delete_matching net key ref caches
                (s\<lparr>sent := sent s @ [delete_cache_request key cid],
                   stdout := stdout s @
                     [''Deleting ID '' @ py_str cid @ ''...'', ''URLError with delete.'']\<rparr>))
       \<and> (net (sent s) (delete_cache_request key cid) = Inl e \<and> e \<noteq> URLError
             \<and> (\<forall>c. e \<noteq> HTTPError c) \<longrightarrow>
            delete_matching net key ref (cache # caches) s =
              (Some e,
               s\<lparr>sent := sent s @ [delete_cache_request key cid],
                 stdout := stdout s @ [''Deleting ID '' @ py_str cid @ ''...'']\<rparr>))"
proof (intro conjI impI)
  assume "net (sent s) (delete_cache_request key cid) = Inl e \<and> e \<noteq> URLError
             \<and> (\<forall>c. e \<noteq> HTTPError c)"
  with assms show "delete_matching net key ref (cache # caches) s =
              (Some e,
               s\<lparr>sent := sent s @ [delete_cache_request key cid],
                 stdout := stdout s @ [''Deleting ID '' @ py_str cid @ ''...'']\<rparr>)"
    by (cases e) (simp_all add: try_delete_def urlopen_def py_print_def)
qed (use assms in \<open>simp_all add: try_delete_def urlopen_def py_print_def\<close>)

theorem delete_failure_is_logged_and_skipped_witness:
  "delete_matching example_net ''t0k'' ''refs/pull/42/merge''
     [JObj [(''id'', JInt 1), (''ref'', JStr ''refs/pull/42/merge'')]]
     \<lparr>sent = [cache_list_request ''t0k''], stdout = []\<rparr> =
   (None, \<lparr>sent = [cache_list_request ''t0k'', delete_cache_request ''t0k'' (JInt 1)],
           stdout = [''Deleting ID 1...'', ''HTTPError with delete, error code 404.'']\<rparr>)
   \<and>
   delete_matching example_net ''t0k'' ''refs/pull/42/merge''
     [JObj [(''id'', JInt 4), (''ref'', JStr ''refs/pull/42/merge'')]]
     \<lparr>sent = [cache_list_request ''t0k'', delete_cache_request ''t0k'' (JInt 1)], stdout = []\<rparr> =
   (None, \<lparr>sent = [cache_list_request ''t0k'', delete_cache_request ''t0k'' (JInt 1),
                   delete_cache_request ''t0k'' (JInt 4)],
           stdout = [''Deleting ID 4...'', ''URLError with delete.'']\<rparr>)
   \<and>
   delete_matching reset_net ''t0k'' ''refs/pull/42/merge''
     [JObj [(''id'', JInt 1), (''ref'', JStr ''refs/pull/42/merge'')]]
     \<lparr>sent = [cache_list_request ''t0k''], stdout = []\<rparr> =
   (Some OtherError, \<lparr>sent = [cache_list_request ''t0k'', delete_cache_request ''t0k'' (JInt 1)],
           stdout = [''Deleting ID 1...'']\<rparr>)"
  using
    delete_failure_is_logged_and_skipped
      [of "JObj [(''id'', JInt 1), (''ref'', JStr ''refs/pull/42/merge'')]" "''refs/pull/42/merge''"
          "JInt 1" example_net "\<lparr>sent = [cache_list_request ''t0k''], stdout = []\<rparr>" "''t0k''" 404 "[]"]
    delete_failure_is_logged_and_skipped
      [of "JObj [(''id'', JInt 4), (''ref'', JStr ''refs/pull/42/merge'')]" "''refs/pull/42/merge''"
          "JInt 4" example_net
          "\<lparr>sent = [cache_list_request ''t0k'', delete_cache_request ''t0k'' (JInt 1)], stdout = []\<rparr>"
          "''t0k''" 0 "[]"]
    delete_failure_is_logged_and_skipped
      [of "JObj [(''id'', JInt 1), (''ref'', JStr ''refs/pull/42/merge'')]" "''refs/pull/42/merge''"
          "JInt 1" reset_net "\<lparr>sent = [cache_list_request ''t0k''], stdout = []\<rparr>" "''t0k''" 0 "[]"
          OtherError]
  by (simp add: example_net_def reset_net_def str_int_def str_nat.simps)

text \<open>
  C4 as stated has every transport error caught. An error that \<^verbatim>\<open>urlopen\<close> raises as
  it is, not as a \<open>URLError\<close>, leaves the loop: no line about it is printed and the
  second matching cache is not tried.
\<close>

theorem uncaught_transport_error_counterexample:
  "delete_matching reset_net ''t0k'' ''refs/pull/42/merge''
     [JObj [(''id'', JInt 1), (''ref'', JStr ''refs/pull/42/merge'')],
      JObj [(''id'', JInt 4), (''ref'', JStr ''refs/pull/42/merge'')]]
     \<lparr>sent = [cache_list_request ''t0k''], stdout = []\<rparr> =
   (Some OtherError, \<lparr>sent = [cache_list_request ''t0k'', delete_cache_request ''t0k'' (JInt 1)],
           stdout = [''Deleting ID 1...'']\<rparr>)"
  by (simp add: reset_net_def try_delete_def urlopen_def py_print_def str_int_def str_nat.simps)

text \<open>
  C1 (amended). For a well-formed list response and any pull-request identifier, every
  delete request sent is the delete request of a listed cache whose \<^verbatim>\<open>ref\<close> field is
  the string \<^verbatim>\<open>refs/pull/<id>/merge\<close> itself, so a cache whose reference is any other
  value is never touched. When every delete request ends in a response, an \<open>HTTPError\<close>
  or a \<open>URLError\<close>, the converse holds too: the delete requests sent are exactly those
  of the caches with that reference.
\<close>

theorem delete_iff_ref_equal:
  assumes "env ''GITHUB_TOKEN'' = Some key" and "1 < length args"
    and "ref = ''refs/pull/'' @ args ! 1 @ ''/merge''"
    and "net [] (cache_list_request key) = Inr (Some body)"
    and "py_getitem body ''actions_caches'' = Inr (JArr entries)"
    and "\<forall>c \<in> set entries. well_formed ref c"
  shows "set (tl (sent (snd (main net env args)))) \<subseteq>
           (\<lambda>c. delete_cache_request key (cache_id c)) `
             {c \<in> set entries. py_getitem c ''ref'' = Inr (JStr ref)}
         \<and> ((\<forall>h r. req_method r = DELETE \<longrightarrow> handled (net h r)) \<longrightarrow>
              set (tl (sent (snd (main net env args)))) =
                (\<lambda>c. delete_cache_request key (cache_id c)) `
                  {c \<in> set entries. py_getitem c ''ref'' = Inr (JStr ref)})"
proof (rule conjI)
  let ?s = "\<lparr>sent = [cache_list_request key], stdout = []\<rparr>"
  have run: "main net env args = delete_matching net key ref entries ?s"
    unfolding assms(3) using assms(1,2,4,5)
    by (simp add: main_listed [where caches = "JArr entries"])
  have m: "set (filter (matches ref) entries) =
      {c \<in> set entries. py_getitem c ''ref'' = Inr (JStr ref)}"
    by (auto simp: matches_def)
  obtain rs where rs: "sent (snd (delete_matching net key ref entries ?s)) = sent ?s @ rs"
    and del: "\<forall>r \<in> set rs. \<exists>c \<in> set entries. matches ref c \<and> \<not> isl (py_getitem c ''id'') \<and>
        r = delete_cache_request key (cache_id c)"
    using delete_matching_sent_deletes [of net key ref entries ?s] by blast
  from rs have "tl (sent (snd (main net env args))) = rs"
    unfolding run by simp
  with del show "set (tl (sent (snd (main net env args)))) \<subseteq>
           (\<lambda>c. delete_cache_request key (cache_id c)) `
             {c \<in> set entries. py_getitem c ''ref'' = Inr (JStr ref)}"
    by (auto simp: matches_def)
  show "(\<forall>h r. req_method r = DELETE \<longrightarrow> handled (net h r)) \<longrightarrow>
              set (tl (sent (snd (main net env args)))) =
                (\<lambda>c. delete_cache_request key (cache_id c)) `
                  {c \<in> set entries. py_getitem c ''ref'' = Inr (JStr ref)}"
  proof
    assume "\<forall>h r. req_method r = DELETE \<longrightarrow> handled (net h r)"
    then have hd: "\<And>h r. req_method r = DELETE \<Longrightarrow> handled (net h r)" by simp
    have "fst (delete_matching net key ref entries ?s) = None \<and>
        sent (snd (delete_matching net key ref entries ?s)) =
          sent ?s @ map (\<lambda>c. delete_cache_request key (cache_id c)) (filter (matches ref) entries)"
      using assms(6) hd by (rule delete_matching_well_formed)
    then have "tl (sent (snd (main net env args))) =
        map (\<lambda>c. delete_cache_request key (cache_id c)) (filter (matches ref) entries)"
      unfolding run by simp
    with m show "set (tl (sent (snd (main net env args)))) =
                (\<lambda>c. delete_cache_request key (cache_id c)) `
                  {c \<in> set entries. py_getitem c ''ref'' = Inr (JStr ref)}"
      by simp
  qed
qed

theorem delete_iff_ref_equal_witness:
  "set (tl (sent (snd (main example_net example_env example_args)))) =
     {delete_cache_request ''t0k'' (JInt 1), delete_cache_request ''t0k'' (JInt 4)}
   \<and> delete_cache_request ''t0k'' (JInt 2) \<notin> set (sent (snd (main example_net example_env example_args)))
   \<and> delete_cache_request ''t0k'' (JInt 3) \<notin> set (sent (snd (main example_net example_env example_args)))"
proof -
  have "\<forall>h r. req_method r = DELETE \<longrightarrow> handled (example_net h r)"
    using example_handled by simp
  then have tl: "set (tl (sent (snd (main example_net example_env example_args)))) =
     {delete_cache_request ''t0k'' (JInt 1), delete_cache_request ''t0k'' (JInt 4)}"
    using delete_iff_ref_equal [of example_env "''t0k''" example_args "''refs/pull/42/merge''"
      example_net example_body example_caches] example_well_formed example_listing
    by (simp add: example_env_def example_args_def example_body_def example_matching_set cache_id_def)
  obtain rs where rs: "sent (snd (main example_net example_env example_args)) =
      cache_list_request ''t0k'' # rs"
    using main_sent_first [of example_env "''t0k''" example_args example_net]
    by (auto simp: example_env_def example_args_def)
  with tl show ?thesis
    using delete_cache_request_example_neq by auto
qed

text \<open>
  C1 as stated has no condition on the delete requests. When the first one ends in an
  exception that the loop does not catch, the fourth cache of the example, whose
  reference is the derived one, gets no delete request.
\<close>

theorem uncaught_delete_skips_match_counterexample:
  "py_getitem (example_caches ! 3) ''ref'' = Inr (JStr ''refs/pull/42/merge'')
   \<and> py_getitem (example_caches ! 3) ''id'' = Inr (JInt 4)
   \<and> delete_cache_request ''t0k'' (JInt 4)
       \<notin> set (sent (snd (main reset_net example_env example_args)))"
proof -
  have "delete_cache_request ''t0k'' (JInt 4) \<noteq> delete_cache_request ''t0k'' (JInt 1)"
    by (simp add: delete_cache_request_int str_int_def str_nat.simps)
  then show ?thesis
    by (simp add: reset_run) (simp add: example_caches_def)
qed

text \<open>
  C5 (amended). \<^verbatim>\<open>main\<close> fails before any request is sent exactly when the variable
  \<^verbatim>\<open>GITHUB_TOKEN\<close> is absent (a \<open>KeyError\<close>) or there is no first argument (an
  \<open>IndexError\<close>); the value of the token is not looked at.
\<close>

theorem fails_before_network_iff_input_missing:
  "(env ''GITHUB_TOKEN'' = None \<longrightarrow>
      main net env args = (Some (KeyError ''GITHUB_TOKEN''), \<lparr>sent = [], stdout = []\<rparr>))
   \<and> (env ''GITHUB_TOKEN'' \<noteq> None \<and> length args \<le> 1 \<longrightarrow>
      main net env args = (Some IndexError, \<lparr>sent = [], stdout = []\<rparr>))
   \<and> (sent (snd (main net env args)) = [] \<longleftrightarrow> env ''GITHUB_TOKEN'' = None \<or> length args \<le> 1)"
proof (cases "env ''GITHUB_TOKEN''")
  case None
  then show ?thesis by (simp add: main_def init_def)
next
  case (Some key)
  show ?thesis
  proof (cases "length args \<le> 1")
    case True
    with Some show ?thesis by (simp add: main_def init_def)
  next
    case False
    with Some obtain rs where "sent (snd (main net env args)) = cache_list_request key # rs"
      using main_sent_first [of env key args net] by auto
    with Some False show ?thesis by simp
  qed
qed

theorem fails_before_network_iff_input_missing_witness:
  "main offline Map.empty example_args = (Some (KeyError ''GITHUB_TOKEN''), \<lparr>sent = [], stdout = []\<rparr>)
   \<and> main offline example_env [''scripts/clear_cache.py''] = (Some IndexError, \<lparr>sent = [], stdout = []\<rparr>)
   \<and> sent (snd (main offline empty_token_env example_args)) \<noteq> []"
  using fails_before_network_iff_input_missing [of Map.empty offline example_args]
    fails_before_network_iff_input_missing [of example_env offline "[''scripts/clear_cache.py'']"]
    fails_before_network_iff_input_missing [of empty_token_env offline example_args]
  by (simp add: example_env_def example_args_def empty_token_env_def)


text \<open>
  C5 as stated also requires the token to be non-empty. With the empty token the list
  request is sent all the same.
\<close>

theorem empty_credential_counterexample:
  "empty_token_env ''GITHUB_TOKEN'' = Some [] \<and>
   sent (snd (main offline empty_token_env example_args)) = [cache_list_request []]"
  by (simp add: main_def empty_token_env_def example_args_def offline_def urlopen_def init_def)

text \<open>
  C9. When \<^verbatim>\<open>GITHUB_TOKEN\<close> is set to the empty string (and there is a first
  argument), \<^verbatim>\<open>main\<close> sends the list request, whose \<^verbatim>\<open>Authorization\<close> header is
  \<^verbatim>\<open>Bearer\<close>, a space, and nothing more.
\<close>

theorem empty_credential_is_sent:
  assumes "env ''GITHUB_TOKEN'' = Some []" and "1 < length args"
  shows "sent (snd (main net env args)) \<noteq> [] \<and>
         hd (sent (snd (main net env args))) =
           \<lparr>url = URL, fragment = None, req_method = GET,
            headers = [(''Accept'', ''application/vnd.github+json''),
                       (''Authorization'', ''Bearer '')]\<rparr>"
proof -
  from assms obtain rs where "sent (snd (main net env args)) = cache_list_request [] # rs"
    using main_sent_first [of env "[]" args net] by auto
  then show ?thesis
    by (simp add: cache_list_request_eq)
qed

theorem empty_credential_is_sent_witness:
  "sent (snd (main example_net empty_token_env example_args)) \<noteq> [] \<and>
   hd (sent (snd (main example_net empty_token_env example_args))) =
     \<lparr>url = ''https://api.github.com/repos/ClementTsang/bottom/actions/caches'',
      fragment = None, req_method = GET,
      headers = [(''Accept'', ''application/vnd.github+json''),
                 (''Authorization'', ''Bearer '')]\<rparr>"
  using empty_credential_is_sent [of empty_token_env example_args example_net]
  by (simp add: empty_token_env_def example_args_def URL_def)

text \<open>
  C7. The first argument is taken as it is, whatever string it is. The reference that
  \<^verbatim>\<open>main\<close> derives from it is the concatenation of \<^verbatim>\<open>refs/pull/\<close>, the argument
  and \<^verbatim>\<open>/merge\<close>: when the response lists one cache, that cache is deleted if and only
  if its \<^verbatim>\<open>ref\<close> is this concatenation.
\<close>

theorem derived_reference_is_concatenation:
  assumes "env ''GITHUB_TOKEN'' = Some key" and "1 < length args"
    and "net [] (cache_list_request key) = Inr (Some body)"
    and "py_getitem body ''actions_caches'' = Inr (JArr [c])"
    and "py_getitem c ''ref'' = Inr (JStr r)"
    and "py_getitem c ''id'' = Inr cid"
  shows "delete_cache_request key cid \<in> set (sent (snd (main net env args)))
           \<longleftrightarrow> r = ''refs/pull/'' @ args ! 1 @ ''/merge''"
proof -
  let ?ref = "''refs/pull/'' @ args ! 1 @ ''/merge''"
  let ?s = "\<lparr>sent = [cache_list_request key], stdout = []\<rparr>"
  have run: "main net env args = delete_matching net key ?ref [c] ?s"
    using assms(1-4) by (simp add: main_listed [where caches = "JArr [c]"])
  show ?thesis
  proof (cases "r = ?ref")
    case False
    with assms(5) have "delete_matching net key ?ref [c] ?s = (None, ?s)" by simp
    with False show ?thesis unfolding run by simp
  next
    case True
    obtain x s' where t: "try_delete net key cid ?s = (x, s')"
      by (cases "try_delete net key cid ?s") auto
    have s': "sent s' = [cache_list_request key, delete_cache_request key cid]"
      using try_delete_sent [of net key cid ?s] t by simp
    from True assms(5,6) t have "snd (delete_matching net key ?ref [c] ?s) = s'"
      by (cases x) simp_all
    with True s' show ?thesis unfolding run by simp
  qed
qed

theorem derived_reference_is_concatenation_witness:
  "delete_cache_request ''t0k'' (JInt 7)
     \<in> set (sent (snd (main probe_net example_env [''scripts/clear_cache.py'', ''../x y''])))
   \<and> delete_cache_request ''t0k'' (JInt 7)
     \<notin> set (sent (snd (main probe_net example_env [''scripts/clear_cache.py'', ''..%2Fx%20y''])))"
  using
    derived_reference_is_concatenation [of example_env "''t0k''" "[''scripts/clear_cache.py'', ''../x y'']"
      probe_net "JObj [(''actions_caches'',
             JArr [JObj [(''id'', JInt 7), (''ref'', JStr ''refs/pull/../x y/merge'')]])]"
      "JObj [(''id'', JInt 7), (''ref'', JStr ''refs/pull/../x y/merge'')]"
      "''refs/pull/../x y/merge''" "JInt 7"]
    derived_reference_is_concatenation [of example_env "''t0k''" "[''scripts/clear_cache.py'', ''..%2Fx%20y'']"
      probe_net "JObj [(''actions_caches'',
             JArr [JObj [(''id'', JInt 7), (''ref'', JStr ''refs/pull/../x y/merge'')]])]"
      "JObj [(''id'', JInt 7), (''ref'', JStr ''refs/pull/../x y/merge'')]"
      "''refs/pull/../x y/merge''" "JInt 7"]
  by (simp add: example_env_def probe_net_def)

text \<open>
  C6 (amended). The exit status is 0 when the token and the argument are there, the list
  request returns a well-formed list and every delete request ends in a response, an
  \<open>HTTPError\<close> or a \<open>URLError\<close>, whatever the number of failures logged. With the
  token, the argument and a well-formed list, the status is not 0 only when the last
  request sent was a delete request that ended in an exception of another kind. It is
  not 0 exactly when an exception leaves \<^verbatim>\<open>main\<close>, as happens when the token is
  absent, when the argument is absent and when the list request fails. The program sets
  no exit status itself: the status is the interpreter's.
\<close>

theorem exit_status_zero_unless_unhandled:
  "(env ''GITHUB_TOKEN'' = Some key \<and> 1 < length args
      \<and> net [] (cache_list_request key) = Inr (Some body)
      \<and> py_getitem body ''actions_caches'' = Inr (JArr entries)
      \<and> (\<forall>c \<in> set entries. well_formed (''refs/pull/'' @ args ! 1 @ ''/merge'') c)
      \<and> (\<forall>h r. req_method r = DELETE \<longrightarrow> handled (net h r))
     \<longrightarrow> exit_status (fst (main net env args)) = 0)
   \<and> (env ''GITHUB_TOKEN'' = Some key \<and> 1 < length args
      \<and> net [] (cache_list_request key) = Inr (Some body)
      \<and> py_getitem body ''actions_caches'' = Inr (JArr entries)
      \<and> (\<forall>c \<in> set entries. well_formed (''refs/pull/'' @ args ! 1 @ ''/merge'') c)
      \<and> exit_status (fst (main net env args)) \<noteq> 0
     \<longrightarrow> (\<exists>h r. sent (snd (main net env args)) = h @ [r] \<and> h \<noteq> [] \<and> req_method r = DELETE
            \<and> \<not> handled (net h r)))
   \<and> (exit_status (fst (main net env args)) \<noteq> 0 \<longleftrightarrow> (\<exists>e. fst (main net env args) = Some e))
   \<and> (env ''GITHUB_TOKEN'' = None \<longrightarrow> exit_status (fst (main net env args)) = 1)
   \<and> (length args \<le> 1 \<longrightarrow> exit_status (fst (main net env args)) = 1)
   \<and> (env ''GITHUB_TOKEN'' = Some key \<and> 1 < length args
      \<and> net [] (cache_list_request key) = Inl e
     \<longrightarrow> exit_status (fst (main net env args)) = 1)"
proof -
  let ?ref = "''refs/pull/'' @ args ! 1 @ ''/merge''"
  let ?s = "\<lparr>sent = [cache_list_request key], stdout = []\<rparr>"
  have a: "exit_status (fst (main net env args)) = 0"
    if h: "env ''GITHUB_TOKEN'' = Some key \<and> 1 < length args
      \<and> net [] (cache_list_request key) = Inr (Some body)
      \<and> py_getitem body ''actions_caches'' = Inr (JArr entries)
      \<and> (\<forall>c \<in> set entries. well_formed ?ref c)
      \<and> (\<forall>h r. req_method r = DELETE \<longrightarrow> handled (net h r))"
  proof -
    from h have run: "main net env args = delete_matching net key ?ref entries ?s"
      by (simp add: main_listed [where caches = "JArr entries"])
    from h have wf: "\<forall>c \<in> set entries. well_formed ?ref c"
      and hd: "\<And>h r. req_method r = DELETE \<Longrightarrow> handled (net h r)"
      by simp_all
    have "fst (delete_matching net key ?ref entries ?s) = None \<and>
          sent (snd (delete_matching net key ?ref entries ?s)) =
            sent ?s @ map (\<lambda>c. delete_cache_request key (cache_id c)) (filter (matches ?ref) entries)"
      using wf hd by (rule delete_matching_well_formed)
    then show ?thesis unfolding run by simp
  qed
  have b: "\<exists>h r. sent (snd (main net env args)) = h @ [r] \<and> h \<noteq> [] \<and> req_method r = DELETE
            \<and> \<not> handled (net h r)"
    if h: "env ''GITHUB_TOKEN'' = Some key \<and> 1 < length args
      \<and> net [] (cache_list_request key) = Inr (Some body)
      \<and> py_getitem body ''actions_caches'' = Inr (JArr entries)
      \<and> (\<forall>c \<in> set entries. well_formed ?ref c)
      \<and> exit_status (fst (main net env args)) \<noteq> 0"
  proof -
    from h have run: "main net env args = delete_matching net key ?ref entries ?s"
      by (simp add: main_listed [where caches = "JArr entries"])
    from h have wf: "\<forall>c \<in> set entries. well_formed ?ref c" by simp
    from h have "fst (delete_matching net key ?ref entries ?s) \<noteq> None"
      unfolding run by (cases "fst (delete_matching net key ?ref entries ?s)") simp_all
    with wf have "\<exists>h r. sent (snd (delete_matching net key ?ref entries ?s)) = h @ [r] \<and>
           length (sent ?s) \<le> length h \<and> req_method r = DELETE \<and> \<not> handled (net h r)"
      by (rule delete_matching_raises)
    then show ?thesis unfolding run by auto
  qed
  have d: "exit_status (fst (main net env args)) \<noteq> 0 \<longleftrightarrow> (\<exists>e. fst (main net env args) = Some e)"
    by (cases "fst (main net env args)") simp_all
  have c1: "exit_status (fst (main net env args)) = 1" if "env ''GITHUB_TOKEN'' = None"
    using that by (simp add: main_def)
  have c2: "exit_status (fst (main net env args)) = 1" if "length args \<le> 1"
    using that by (cases "env ''GITHUB_TOKEN''") (simp_all add: main_def)
  have c3: "exit_status (fst (main net env args)) = 1"
    if "env ''GITHUB_TOKEN'' = Some key \<and> 1 < length args
      \<and> net [] (cache_list_request key) = Inl e"
    using that by (simp add: main_def urlopen_def init_def)
  show ?thesis
    apply (rule conjI)
     apply (rule impI, erule a)
    apply (rule conjI)
     apply (rule impI, erule b)
    apply (rule conjI)
     apply (rule d)
    apply (rule conjI)
     apply (rule impI, erule c1)
    apply (rule conjI)
     apply (rule impI, erule c2)
    apply (rule impI, erule c3)
    done
qed

theorem exit_status_zero_unless_unhandled_witness:
  "exit_status (fst (main example_net example_env example_args)) = 0
   \<and> stdout (snd (main example_net example_env example_args)) =
     [''Deleting ID 1...'', ''HTTPError with delete, error code 404.'',
      ''Deleting ID 4...'', ''URLError with delete.'']
   \<and> (\<exists>h r. sent (snd (main reset_net example_env example_args)) = h @ [r] \<and> h \<noteq> []
        \<and> req_method r = DELETE \<and> \<not> handled (reset_net h r))
   \<and> exit_status (fst (main offline example_env example_args)) = 1
   \<and> exit_status (fst (main example_net Map.empty example_args)) = 1
   \<and> exit_status (fst (main example_net example_env [''scripts/clear_cache.py''])) = 1"
proof -
  have reset_listing: "reset_net [] (cache_list_request ''t0k'') = Inr (Some example_body)"
    by (simp add: reset_net_def)
  have reset_exit: "exit_status (fst (main reset_net example_env example_args)) \<noteq> 0"
    by (simp add: reset_run)
  show ?thesis
    using
      exit_status_zero_unless_unhandled [of example_env "''t0k''" example_args example_net
        example_body example_caches]
      exit_status_zero_unless_unhandled [of example_env "''t0k''" example_args reset_net
        example_body example_caches]
      exit_status_zero_unless_unhandled [of example_env "''t0k''" example_args offline _ _ URLError]
      exit_status_zero_unless_unhandled [of Map.empty _ example_args example_net]
      exit_status_zero_unless_unhandled [of example_env _ "[''scripts/clear_cache.py'']" example_net]
      example_well_formed example_handled example_listing example_stdout
      reset_listing reset_exit
    by (simp add: example_env_def example_args_def example_body_def offline_def)
qed

text \<open>
  C6 as stated has status 0 whenever the inputs are read and the listing succeeds. With
  both, a delete request that ends in an exception the loop does not catch gives
  status 1.
\<close>

theorem uncaught_delete_exit_counterexample:
  "example_env ''GITHUB_TOKEN'' = Some ''t0k'' \<and> 1 < length example_args
   \<and> reset_net [] (cache_list_request ''t0k'') = Inr (Some example_body)
   \<and> py_getitem example_body ''actions_caches'' = Inr (JArr example_caches)
   \<and> list_all (well_formed ''refs/pull/42/merge'') example_caches
   \<and> exit_status (fst (main reset_net example_env example_args)) = 1"
  using example_well_formed
  by (simp add: reset_run list_all_iff)
     (simp add: example_env_def example_args_def reset_net_def example_body_def)

text \<open>
  C10. When the list request returns but its body is not what the loop needs, an
  exception leaves \<^verbatim>\<open>main\<close> as it does when the list request fails: a
  \<open>JSONDecodeError\<close> when the body is not JSON, a \<open>KeyError\<close> when the object has no
  \<^verbatim>\<open>actions_caches\<close>, both with the list request as the only request sent; and a
  \<open>KeyError\<close> at the first listed cache that has no \<^verbatim>\<open>ref\<close>, or that matches and has
  no \<^verbatim>\<open>id\<close>, after which no request is sent: the delete requests sent are those of the
  matching caches listed before it.
\<close>

theorem malformed_listing_is_fatal:
  assumes "env ''GITHUB_TOKEN'' = Some key" and "1 < length args"
    and "ref = ''refs/pull/'' @ args ! 1 @ ''/merge''"
  shows
    "(net [] (cache_list_request key) = Inr None \<longrightarrow>
        main net env args =
          (Some JSONDecodeError, \<lparr>sent = [cache_list_request key], stdout = []\<rparr>))
     \<and> (net [] (cache_list_request key) = Inr (Some (JObj members))
          \<and> map_of members ''actions_caches'' = None \<longrightarrow>
        main net env args =
          (Some (KeyError ''actions_caches''), \<lparr>sent = [cache_list_request key], stdout = []\<rparr>))
     \<and> (net [] (cache_list_request key) = Inr (Some body)
          \<and> py_getitem body ''actions_caches'' = Inr (JArr (pre @ JObj bad # post))
          \<and> (\<forall>c \<in> set pre. well_formed ref c)
          \<and> (\<forall>h r. req_method r = DELETE \<longrightarrow> handled (net h r))
          \<and> (map_of bad ''ref'' = None
               \<or> map_of bad ''ref'' = Some (JStr ref) \<and> map_of bad ''id'' = None) \<longrightarrow>
        fst (main net env args) =
          Some (KeyError (if map_of bad ''ref'' = None then ''ref'' else ''id''))
        \<and> sent (snd (main net env args)) =
            cache_list_request key #
              map (\<lambda>c. delete_cache_request key (cache_id c)) (filter (matches ref) pre))"
proof (rule conjI [OF _ conjI]; rule impI)
  assume "net [] (cache_list_request key) = Inr None"
  with assms(1,2) show "main net env args =
      (Some JSONDecodeError, \<lparr>sent = [cache_list_request key], stdout = []\<rparr>)"
    by (simp add: main_def urlopen_def init_def json_load_def)
next
  assume "net [] (cache_list_request key) = Inr (Some (JObj members))
          \<and> map_of members ''actions_caches'' = None"
  with assms(1,2) show "main net env args =
      (Some (KeyError ''actions_caches''), \<lparr>sent = [cache_list_request key], stdout = []\<rparr>)"
    by (simp add: main_def urlopen_def init_def json_load_def)
next
  assume h: "net [] (cache_list_request key) = Inr (Some body)
          \<and> py_getitem body ''actions_caches'' = Inr (JArr (pre @ JObj bad # post))
          \<and> (\<forall>c \<in> set pre. well_formed ref c)
          \<and> (\<forall>h r. req_method r = DELETE \<longrightarrow> handled (net h r))
          \<and> (map_of bad ''ref'' = None
               \<or> map_of bad ''ref'' = Some (JStr ref) \<and> map_of bad ''id'' = None)"
  let ?s = "\<lparr>sent = [cache_list_request key], stdout = []\<rparr>"
  from h assms have run: "main net env args =
      delete_matching net key ref (pre @ JObj bad # post) ?s"
    by (simp add: main_listed [where caches = "JArr (pre @ JObj bad # post)"])
  from h have wf: "\<forall>c \<in> set pre. well_formed ref c"
    and hd: "\<And>h r. req_method r = DELETE \<Longrightarrow> handled (net h r)"
    by simp_all
  obtain s' where pre: "delete_matching net key ref pre ?s = (None, s')"
    and s': "sent s' = cache_list_request key #
        map (\<lambda>c. delete_cache_request key (cache_id c)) (filter (matches ref) pre)"
  proof -
    have "fst (delete_matching net key ref pre ?s) = None \<and>
        sent (snd (delete_matching net key ref pre ?s)) =
          sent ?s @ map (\<lambda>c. delete_cache_request key (cache_id c)) (filter (matches ref) pre)"
      using wf hd by (rule delete_matching_well_formed)
    then show ?thesis
      using that [of "snd (delete_matching net key ref pre ?s)"]
      by (cases "delete_matching net key ref pre ?s") simp
  qed
  from h have "delete_matching net key ref (JObj bad # post) s' =
      (Some (KeyError (if map_of bad ''ref'' = None then ''ref'' else ''id'')), s')"
    by auto
  with pre s' show "fst (main net env args) =
          Some (KeyError (if map_of bad ''ref'' = None then ''ref'' else ''id''))
        \<and> sent (snd (main net env args)) =
            cache_list_request key #
              map (\<lambda>c. delete_cache_request key (cache_id c)) (filter (matches ref) pre)"
    unfolding run by (simp add: delete_matching_append)
qed

theorem malformed_listing_is_fatal_witness:
  "main garbled_net example_env example_args =
     (Some JSONDecodeError, \<lparr>sent = [cache_list_request ''t0k''], stdout = []\<rparr>)
   \<and> fst (main broken_net example_env example_args) = Some (KeyError ''ref'')
   \<and> sent (snd (main broken_net example_env example_args)) =
       [cache_list_request ''t0k'', delete_cache_request ''t0k'' (JInt 1)]"
  using
    malformed_listing_is_fatal [of example_env "''t0k''" example_args "''refs/pull/42/merge''"
      garbled_net]
    malformed_listing_is_fatal [of example_env "''t0k''" example_args "''refs/pull/42/merge''"
      broken_net _ "JObj [(''actions_caches'', JArr broken_caches)]"
      "[JObj [(''id'', JInt 1), (''ref'', JStr ''refs/pull/42/merge'')]]"
      "[(''id'', JInt 2)]"
      "[JObj [(''id'', JInt 3), (''ref'', JStr ''refs/pull/42/merge'')]]"]
    broken_listing broken_handled
  by (simp add: example_env_def example_args_def garbled_net_def broken_caches_def
        well_formed_def matches_def cache_id_def)

text \<open>
  C8 (amended). Every request that \<^verbatim>\<open>main\<close> sends carries the two headers
  \<^verbatim>\<open>Accept\<close> and \<^verbatim>\<open>Authorization\<close>, the latter \<^verbatim>\<open>Bearer\<close> followed by the token as
  it is, and no other header. The request is either a GET of the caches address of the
  one repository, or a DELETE for a listed cache whose \<^verbatim>\<open>ref\<close> is the derived
  reference. The address of the DELETE is the caches address, a slash and the text of the
  cache's \<^verbatim>\<open>id\<close> as the constructor of the request cleans it: without white space at its
  end and cut before its last \<^verbatim>\<open>#\<close>. When that text has no \<^verbatim>\<open>#\<close> and no white space
  at its end, as for every integer, the address ends with the text itself.
\<close>

theorem requests_wire_format:
  assumes "env ''GITHUB_TOKEN'' = Some key"
    and "r \<in> set (sent (snd (main net env args)))"
  shows "headers r =
           [(''Accept'', ''application/vnd.github+json''), (''Authorization'', ''Bearer '' @ key)]
         \<and> (req_method r = GET \<and> url r = URL \<and> fragment r = None
            \<or> req_method r = DELETE \<and>
              (\<exists>body caches items. net [] (cache_list_request key) = Inr (Some body) \<and>
                 py_getitem body ''actions_caches'' = Inr caches \<and> py_iter caches = Inr items \<and>
                 (\<exists>c \<in> set items. \<exists>cid.
                    py_getitem c ''ref'' = Inr (JStr (''refs/pull/'' @ args ! 1 @ ''/merge'')) \<and>
                    py_getitem c ''id'' = Inr cid \<and>
                    url r = URL @ ''/'' @ fst (splittag (rstrip (py_str cid))) \<and>
                    fragment r = snd (splittag (rstrip (py_str cid))) \<and>
                    (CHR ''#'' \<notin> set (py_str cid) \<and> rstrip (py_str cid) = py_str cid \<longrightarrow>
                       url r = URL @ ''/'' @ py_str cid \<and> fragment r = None) \<and>
                    (\<forall>i. cid = JInt i \<longrightarrow>
                       url r = URL @ ''/'' @ str_int i \<and> fragment r = None))))"
proof -
  from main_requests [OF assms]
  consider (list) "r = cache_list_request key"
    | (delete) body caches items c where "net [] (cache_list_request key) = Inr (Some body)"
        "py_getitem body ''actions_caches'' = Inr caches" "py_iter caches = Inr items"
        "c \<in> set items" "matches (''refs/pull/'' @ args ! 1 @ ''/merge'') c"
        "\<not> isl (py_getitem c ''id'')" "r = delete_cache_request key (cache_id c)"
    by blast
  then show ?thesis
  proof cases
    case list
    then show ?thesis by (simp add: cache_list_request_eq)
  next
    case delete
    from delete(6) obtain cid where cid: "py_getitem c ''id'' = Inr cid"
      by (cases "py_getitem c ''id''") auto
    then have r: "r = delete_cache_request key cid"
      using delete(7) by (simp add: cache_id_def)
    have plain: "url r = URL @ ''/'' @ py_str cid \<and> fragment r = None"
      if "CHR ''#'' \<notin> set (py_str cid) \<and> rstrip (py_str cid) = py_str cid"
      using that r by (simp add: delete_cache_request_eq plain_splittag)
    have int: "url r = URL @ ''/'' @ str_int i \<and> fragment r = None" if "cid = JInt i" for i
      using that r by (simp add: delete_cache_request_int)
    have "headers r =
        [(''Accept'', ''application/vnd.github+json''), (''Authorization'', ''Bearer '' @ key)]"
      "req_method r = DELETE"
      "url r = URL @ ''/'' @ fst (splittag (rstrip (py_str cid)))"
      "fragment r = snd (splittag (rstrip (py_str cid)))"
      using r by (simp_all add: delete_cache_request_eq)
    with delete(1-5) cid plain int show ?thesis
      unfolding matches_def by blast
  qed
qed

theorem requests_wire_format_witness:
  "delete_cache_request ''t0k'' (JInt 4) \<in> set (sent (snd (main example_net example_env example_args)))
   \<and> headers (delete_cache_request ''t0k'' (JInt 4)) =
       [(''Accept'', ''application/vnd.github+json''), (''Authorization'', ''Bearer t0k'')]
   \<and> req_method (delete_cache_request ''t0k'' (JInt 4)) = DELETE
   \<and> url (delete_cache_request ''t0k'' (JInt 4)) =
       ''https://api.github.com/repos/ClementTsang/bottom/actions/caches/4''
   \<and> headers (cache_list_request ''t0k'') =
       [(''Accept'', ''application/vnd.github+json''), (''Authorization'', ''Bearer t0k'')]
   \<and> url (cache_list_request ''t0k'') =
       ''https://api.github.com/repos/ClementTsang/bottom/actions/caches''"
proof -
  have in4: "delete_cache_request ''t0k'' (JInt 4)
      \<in> set (sent (snd (main example_net example_env example_args)))"
    and in0: "cache_list_request ''t0k''
      \<in> set (sent (snd (main example_net example_env example_args)))"
    by (simp_all add: example_run)
  have env: "example_env ''GITHUB_TOKEN'' = Some ''t0k''"
    by (simp add: example_env_def)
  from requests_wire_format [OF env in4] requests_wire_format [OF env in0] in4
  show ?thesis
    by (simp add: delete_cache_request_int cache_list_request_eq URL_def str_int_def
          str_nat.simps)
qed

text \<open>
  C8 as stated has the address end with the identifier whatever it is. For the
  identifiers \<^verbatim>\<open>"7 "\<close> and \<^verbatim>\<open>"a#b"\<close> the addresses requested end with \<^verbatim>\<open>7\<close> and
  \<^verbatim>\<open>a\<close>.
\<close>

theorem address_is_cleaned_counterexample:
  "map url (tl (sent (snd (main odd_ids_net example_env example_args)))) =
     [''https://api.github.com/repos/ClementTsang/bottom/actions/caches/7'',
      ''https://api.github.com/repos/ClementTsang/bottom/actions/caches/a'']
   \<and> py_str (JStr ''7 '') = ''7 '' \<and> py_str (JStr ''a#b'') = ''a#b''
   \<and> URL @ ''/'' @ py_str (JStr ''7 '') =
       ''https://api.github.com/repos/ClementTsang/bottom/actions/caches/7 ''
   \<and> URL @ ''/'' @ py_str (JStr ''a#b'') =
       ''https://api.github.com/repos/ClementTsang/bottom/actions/caches/a#b''"
  by (simp add: odd_ids_run delete_cache_request_eq)
     (simp add: URL_def rstrip_def splittag_def py_isspace_def)

end
